theory Spec2Isabelle
  imports Complex_Main
begin

section \<open>Shared vocabulary of the helper module\<close>

text \<open>
  The helper module is glue code: every function drives objects it does not define
  (a gym environment, a stable-baselines model, the shell, OpenCV).  The embedding
  keeps each function's control flow as it is written and takes the foreign calls as
  parameters that act on an explicit world state.  Every foreign call is assumed to
  return; the exceptions the module raises or provokes by itself are values of
  \<open>py_error\<close>.
\<close>

datatype py_error =
    IndexError
  | ValueError
  | CalledProcessError int "string list" string

subsection \<open>Decimal rendering of integers in f-strings\<close>

definition digit_char :: "nat \<Rightarrow> char" where
  "digit_char d = ''0123456789'' ! d"

fun str_nat :: "nat \<Rightarrow> string" where
  "str_nat n = (if n < 10 then [digit_char n] else str_nat (n div 10) @ [digit_char (n mod 10)])"

declare str_nat.simps [simp del]


section \<open>run_command\<close>



datatype console = Stdout string | Stderr string




section \<open>evaluate\<close>

text \<open>
  The objects evaluate is handed, and the libraries it calls, as functions on the
  world: \<open>env.reset()\<close>, \<open>env.step(action)\<close> (observation, reward, done, info),
  \<open>env.render(mode)\<close>, \<open>model.predict(obs, deterministic)\<close> (the action; the
  second component of its result is dropped by every caller), the \<open>shape\<close> of a rendered
  array, \<open>np.mean\<close>, and \<open>str(Path(folder) / file)\<close>.
\<close>

record ('w, 'obs, 'act, 'rew, 'info, 'img, 'mean) foreign =
  env_reset :: "'w \<Rightarrow> 'obs \<times> 'w"
  env_step :: "'act \<Rightarrow> 'w \<Rightarrow> ('obs \<times> 'rew \<times> bool \<times> 'info) \<times> 'w"
  env_render :: "string \<Rightarrow> 'w \<Rightarrow> 'img \<times> 'w"
  model_predict :: "'obs \<Rightarrow> bool \<Rightarrow> 'w \<Rightarrow> 'act \<times> 'w"
  img_shape :: "'img \<Rightarrow> nat list"
  np_mean :: "'rew list \<Rightarrow> 'mean"
  path_join :: "string \<Rightarrow> string \<Rightarrow> string"

text \<open>
  The effects of evaluate, in the order they happen.  A call that returns a value the
  function uses is logged with its arguments and that value.
\<close>

datatype ('obs, 'act, 'rew, 'mean, 'img, 'rate) event =
    Makedirs string bool
  | PrintStartEpisode nat nat
  | EnvReset 'obs
  | Predict 'obs bool 'act
  | EnvStep 'act 'obs 'rew
  | EnvRender string 'img
  | PrintStartVideoWriter
  | VideoWriter string string 'rate "nat \<times> nat"
  | CvtColorWrite 'img
  | Release
  | OsSystem string
  | PrintShowing nat 'rew
  | ReadBytes string
  | DisplayHTML string
  | OsRemove string
  | PrintFinished 'mean

text \<open>The local variables of one episode, with the world and the log.\<close>

record ('w, 'obs, 'rew, 'img, 'ev) locals =
  obs :: 'obs
  episodic_reward :: 'rew
  img_array :: "'img list"
  world :: 'w
  trace :: "'ev list"

text \<open>The body of \<^verbatim>\<open>for _step in tqdm(range(episode_length))\<close>.\<close>

definition step_body ::
  "('w, 'obs, 'act, 'rew::{zero,plus}, 'info, 'img, 'mean) foreign \<Rightarrow> 'rate option \<Rightarrow>
   ('w, 'obs, 'rew, 'img, ('obs, 'act, 'rew, 'mean, 'img, 'rate) event) locals \<Rightarrow>
   ('w, 'obs, 'rew, 'img, ('obs, 'act, 'rew, 'mean, 'img, 'rate) event) locals" where
  "step_body f video_rate s =
     (case model_predict f (obs s) True (world s) of
        (action, w1) \<Rightarrow>
     (case env_step f action w1 of
        ((ob, reward, done, info), w2) \<Rightarrow>
     (let s1 = s\<lparr>obs := ob,
                  episodic_reward := episodic_reward s + reward,
                  world := w2,
                  trace := trace s @ [Predict (obs s) True action, EnvStep action ob reward]\<rparr>
      in case video_rate of
           None \<Rightarrow> s1
         | Some _ \<Rightarrow>
             (case env_render f ''rgb_array'' w2 of
                (img, w3) \<Rightarrow>
                  (let s2 = s1\<lparr>world := w3, trace := trace s1 @ [EnvRender ''rgb_array'' img]\<rparr>
                   in if 0 \<notin> set (img_shape f img)
                      then s2\<lparr>img_array := img_array s2 @ [img]\<rparr>
                      else s2)))))"

text \<open>
  show_video: the mp4 file is read, encoded and displayed as an HTML video element.
\<close>

definition show_video ::
  "(string \<Rightarrow> string \<Rightarrow> string) \<Rightarrow> string \<Rightarrow> string \<Rightarrow> ('obs, 'act, 'rew, 'mean, 'img, 'rate) event list" where
  "show_video pj video_file video_folder =
     (let mp4 = pj video_folder (video_file @ ''.mp4'') in [ReadBytes mp4, DisplayHTML mp4])"

definition ffmpeg_command :: "string \<Rightarrow> string \<Rightarrow> string \<Rightarrow> nat \<Rightarrow> string" where
  "ffmpeg_command video_folder path video_prefix i =
     ''ffmpeg -y -i '' @ video_folder @ ''/temp.mp4 -vcodec libx264 -f mp4 '' @ path
       @ ''.mp4 >> /tmp/ffmpeg_'' @ video_prefix @ ''_'' @ str_nat i @ ''.txt 2>&1''"

text \<open>
  The block under the second \<^verbatim>\<open>if video_rate is not None\<close>.  \<open>img_array[-1]\<close>
  raises IndexError on the empty list, and unpacking a shape into
  \<open>height, width, _\<close> raises ValueError unless it has three entries.
\<close>

definition write_video ::
  "('w, 'obs, 'act, 'rew, 'info, 'img, 'mean) foreign \<Rightarrow> 'rate \<Rightarrow> string \<Rightarrow> string \<Rightarrow> nat \<Rightarrow>
   ('w, 'obs, 'rew, 'img, ('obs, 'act, 'rew, 'mean, 'img, 'rate) event) locals \<Rightarrow>
   (py_error + 'rew) \<times> 'w \<times> ('obs, 'act, 'rew, 'mean, 'img, 'rate) event list" where
  "write_video f rate video_folder video_prefix i s =
     (let video_file = video_prefix @ ''_'' @ str_nat i;
          path = path_join f video_folder video_file;
          tr1 = trace s @ [PrintStartVideoWriter]
      in if img_array s = [] then (Inl IndexError, world s, tr1)
         else
           (case img_shape f (last (img_array s)) of
              [height, width, _] \<Rightarrow>
                (Inr (episodic_reward s), world s,
                 tr1 @ [VideoWriter (video_folder @ ''/temp.mp4'') ''mp4v'' rate (width, height)]
                     @ map CvtColorWrite (img_array s)
                     @ [Release,
                        OsSystem (ffmpeg_command video_folder path video_prefix i),
                        PrintShowing i (episodic_reward s)]
                     @ show_video (path_join f) video_file video_folder
                     @ [OsRemove (video_folder @ ''/temp.mp4'')])
            | _ \<Rightarrow> (Inl ValueError, world s, tr1)))"

text \<open>The body of \<^verbatim>\<open>for i in range(n_eval_episodes)\<close>, up to the append.\<close>

definition episode ::
  "('w, 'obs, 'act, 'rew::{zero,plus}, 'info, 'img, 'mean) foreign \<Rightarrow> nat \<Rightarrow> nat \<Rightarrow> 'rate option \<Rightarrow>
   string \<Rightarrow> string \<Rightarrow> nat \<Rightarrow> 'w \<times> ('obs, 'act, 'rew, 'mean, 'img, 'rate) event list \<Rightarrow>
   (py_error + 'rew) \<times> 'w \<times> ('obs, 'act, 'rew, 'mean, 'img, 'rate) event list" where
  "episode f n_eval_episodes episode_length video_rate video_prefix video_folder i wt =
     (case env_reset f (fst wt) of
        (ob, w1) \<Rightarrow>
     (let s0 = \<lparr>obs = ob, episodic_reward = 0, img_array = [], world = w1,
                trace = snd wt @ [PrintStartEpisode i n_eval_episodes, EnvReset ob]\<rparr>;
          s = (step_body f video_rate ^^ episode_length) s0
      in case video_rate of
           None \<Rightarrow> (Inr (episodic_reward s), world s, trace s)
         | Some rate \<Rightarrow> write_video f rate video_folder video_prefix i s))"

text \<open>The outer loop over the episode indices; an exception leaves it at once.\<close>

fun episodes ::
  "('w, 'obs, 'act, 'rew::{zero,plus}, 'info, 'img, 'mean) foreign \<Rightarrow> nat \<Rightarrow> nat \<Rightarrow> 'rate option \<Rightarrow>
   string \<Rightarrow> string \<Rightarrow> nat list \<Rightarrow> 'rew list \<Rightarrow> 'w \<times> ('obs, 'act, 'rew, 'mean, 'img, 'rate) event list \<Rightarrow>
   (py_error + 'rew list) \<times> 'w \<times> ('obs, 'act, 'rew, 'mean, 'img, 'rate) event list" where
  "episodes f n len video_rate video_prefix video_folder [] episodic_rewards wt =
     (Inr episodic_rewards, wt)"
| "episodes f n len video_rate video_prefix video_folder (i # rest) episodic_rewards wt =
     (case episode f n len video_rate video_prefix video_folder i wt of
        (Inl e, wt') \<Rightarrow> (Inl e, wt')
      | (Inr ep_reward, wt') \<Rightarrow>
          episodes f n len video_rate video_prefix video_folder rest
            (episodic_rewards @ [ep_reward]) wt')"

text \<open>
  evaluate(model, env, n_eval_episodes, episode_length, video_rate, video_prefix).
  The Python function returns None; the embedding returns the final value of
  \<open>episodic_rewards\<close> and the mean it prints, the world and the log.  The two counts
  are natural numbers: \<open>range\<close> of a negative count is as empty as \<open>range(0)\<close>.
\<close>

definition evaluate ::
  "('w, 'obs, 'act, 'rew::{zero,plus}, 'info, 'img, 'mean) foreign \<Rightarrow> nat \<Rightarrow> nat \<Rightarrow> 'rate option \<Rightarrow>
   string \<Rightarrow> 'w \<Rightarrow>
   (py_error + 'rew list \<times> 'mean) \<times> 'w \<times> ('obs, 'act, 'rew, 'mean, 'img, 'rate) event list" where
  "evaluate f n_eval_episodes episode_length video_rate video_prefix w =
     (let video_folder = ''videos/''
      in case episodes f n_eval_episodes episode_length video_rate video_prefix video_folder
                [0..<n_eval_episodes] [] (w, [Makedirs video_folder True]) of
           (Inl e, w', tr) \<Rightarrow> (Inl e, w', tr)
         | (Inr episodic_rewards, w', tr) \<Rightarrow>
             (let mean_episodic_reward = np_mean f episodic_rewards
              in (Inr (episodic_rewards, mean_episodic_reward), w',
                  tr @ [PrintFinished mean_episodic_reward])))"

section \<open>Vocabulary for the properties of evaluate\<close>

text \<open>The calls on the environment and the model, picked out of a log.\<close>

fun is_env_call :: "('obs, 'act, 'rew, 'mean, 'img, 'rate) event \<Rightarrow> bool" where
  "is_env_call (EnvReset _) = True"
| "is_env_call (Predict _ _ _) = True"
| "is_env_call (EnvStep _ _ _) = True"
| "is_env_call _ = False"

definition env_calls ::
  "('obs, 'act, 'rew, 'mean, 'img, 'rate) event list \<Rightarrow> ('obs, 'act, 'rew, 'mean, 'img, 'rate) event list" where
  "env_calls tr = filter is_env_call tr"





text \<open>
  What the video branches add to a log: the render call, the two prints of the video
  block, the video writer, the encoder command, the display and the removal of the
  temporary file.
\<close>

fun is_video_effect :: "('obs, 'act, 'rew, 'mean, 'img, 'rate) event \<Rightarrow> bool" where
  "is_video_effect (EnvRender _ _) = True"
| "is_video_effect PrintStartVideoWriter = True"
| "is_video_effect (VideoWriter _ _ _ _) = True"
| "is_video_effect (CvtColorWrite _) = True"
| "is_video_effect Release = True"
| "is_video_effect (OsSystem _) = True"
| "is_video_effect (PrintShowing _ _) = True"
| "is_video_effect (ReadBytes _) = True"
| "is_video_effect (DisplayHTML _) = True"
| "is_video_effect (OsRemove _) = True"
| "is_video_effect _ = False"

definition without_video ::
  "('obs, 'act, 'rew, 'mean, 'img, 'rate) event list \<Rightarrow> ('obs, 'act, 'rew, 'mean, 'img, 'rate) event list" where
  "without_video tr = filter (\<lambda>e. \<not> is_video_effect e) tr"

definition other_effects ::
  "('obs, 'act, 'rew, 'mean, 'img, 'rate) event list \<Rightarrow> ('obs, 'act, 'rew, 'mean, 'img, 'rate) event list" where
  "other_effects tr = filter (\<lambda>e. \<not> is_env_call e) tr"

text \<open>
  The videos of a log: \<open>None\<close> marks a video writer being opened, \<open>Some img\<close> a
  frame written to it.
\<close>

fun frame_token :: "('obs, 'act, 'rew, 'mean, 'img, 'rate) event \<Rightarrow> 'img option list" where
  "frame_token (VideoWriter _ _ _ _) = [None]"
| "frame_token (CvtColorWrite img) = [Some img]"
| "frame_token _ = []"

definition video_stream :: "('obs, 'act, 'rew, 'mean, 'img, 'rate) event list \<Rightarrow> 'img option list" where
  "video_stream tr = concat (map frame_token tr)"

definition video_tokens :: "'img list \<Rightarrow> 'img option list" where
  "video_tokens buf = None # map Some buf"

text \<open>
  An environment, a model and libraries for the examples.  The world is a counter;
  reset sets it to 0; the model answers an observation with its successor; a step adds
  the action to the counter, observes the counter and rewards the action; a frame is
  its own shape \<open>[w, w, 3]\<close>, so the frame rendered at counter 0 is empty.
\<close>

definition demo_env :: "(nat, nat, nat, int, unit, nat list, real) foreign" where
  "demo_env = \<lparr>env_reset = (\<lambda>w. (0, 0)),
               env_step = (\<lambda>a w. ((w + a, int a, False, ()), w + a)),
               env_render = (\<lambda>mode w. ([w, w, 3], w)),
               model_predict = (\<lambda>ob det w. (ob + 1, w)),
               img_shape = (\<lambda>img. img),
               np_mean = (\<lambda>rs. real_of_int (sum_list rs) / real (length rs)),
               path_join = (\<lambda>a b. a @ b)\<rparr>"


text \<open>The log of one episode of two steps on the example environment, with video.\<close>

definition demo_video_log :: "(nat, nat, int, real, nat list, nat) event list" where
  "demo_video_log =
     [Makedirs ''videos/'' True,
      PrintStartEpisode 0 1, EnvReset 0,
      Predict 0 True 1, EnvStep 1 1 1, EnvRender ''rgb_array'' [1, 1, 3],
      Predict 1 True 2, EnvStep 2 3 2, EnvRender ''rgb_array'' [3, 3, 3],
      PrintStartVideoWriter,
      VideoWriter ''videos//temp.mp4'' ''mp4v'' 30 (3, 3),
      CvtColorWrite [1, 1, 3], CvtColorWrite [3, 3, 3],
      Release,
      OsSystem ''ffmpeg -y -i videos//temp.mp4 -vcodec libx264 -f mp4 videos/run_0.mp4 >> /tmp/ffmpeg_run_0.txt 2>&1'',
      PrintShowing 0 3,
      ReadBytes ''videos/run_0.mp4'', DisplayHTML ''videos/run_0.mp4'',
      OsRemove ''videos//temp.mp4'',
      PrintFinished 3]"

text \<open>The example environment with a renderer whose frames are all empty.\<close>

definition blind_env :: "(nat, nat, nat, int, unit, nat list, real) foreign" where
  "blind_env = demo_env\<lparr>env_render := (\<lambda>mode w. ([0, 0, 3], w))\<rparr>"

section \<open>record_video\<close>










section \<open>setup_notebook\<close>

text \<open>The special values of \<open>subprocess\<close> for a redirection.\<close>

datatype redirect = STDOUT | PIPE | DEVNULL


text \<open>
  The notebook process: its environment variables, the world the shell acts on, and
  the log of what the function did.
\<close>

datatype setup_event =
    Printed string
  | Environ string string
  | Reloaded string
  | Imported string bool
  | Ran string
  | Console console
  | Started string
















text \<open>What the function did, without the console output of the commands.\<close>

definition effects :: "setup_event list \<Rightarrow> setup_event list" where
  "effects tr = filter (\<lambda>e. case e of Console _ \<Rightarrow> False | _ \<Rightarrow> True) tr"





section \<open>The Pendulum object\<close>

text \<open>
  What the decorators of \<open>Pendulum.agnostic\<close> register: the sensors, the actuators
  and the engine states with their message types, and the config entry with its
  default.
\<close>

datatype msg_type = Float32MultiArray | Image

definition registered_sensors :: "(string \<times> msg_type) list" where
  "registered_sensors = [(''angle_sensor'', Float32MultiArray), (''image'', Image)]"

definition registered_actuators :: "(string \<times> msg_type) list" where
  "registered_actuators = [(''voltage'', Float32MultiArray)]"

definition registered_engine_states :: "(string \<times> msg_type) list" where
  "registered_engine_states = [(''model_state'', Float32MultiArray)]"

definition registered_config :: "(string \<times> int list) list" where
  "registered_config = [(''render_shape'', [480, 480])]"

text \<open>
  \<open>SpaceConverter.make(id, ...)\<close> with the keyword arguments of the two converters
  used: low, high and dtype, and for an image low, high, shape and dtype.
\<close>

datatype converter =
    Space_Float32MultiArray "real list" "real list" string
  | Space_Image real real "int list" string

text \<open>
  The object spec, as far as the Pendulum touches it.  \<open>spec.sensors.image\<close> is the
  field \<open>image_sensor\<close> (\<open>image\<close> is taken by the image of a set), and the sections
  \<open>spec.sensors\<close>, \<open>spec.config\<close>, ... carry the prefix \<open>spec_\<close>.
\<close>

record component =
  rate :: real
  window :: int
  space_converter :: "converter option"

record sensor_specs =
  angle_sensor :: component
  image_sensor :: component

record actuator_specs =
  voltage :: component

record state_specs =
  model_state :: component

record config =
  name :: string
  sensors :: "string list"
  actuators :: "string list"
  states :: "string list"
  render_shape :: "int list"

datatype engine_state = EngineState string

record ode_bridge_spec =
  ode :: string
  ode_params :: "real list"
  states_model_state :: "engine_state option"

record object_spec =
  spec_sensors :: sensor_specs
  spec_actuators :: actuator_specs
  spec_states :: state_specs
  spec_config :: config
  spec_OdeBridge :: ode_bridge_spec

text \<open>Assignment below an attribute path.\<close>

definition on_angle_sensor :: "(component \<Rightarrow> component) \<Rightarrow> object_spec \<Rightarrow> object_spec" where
  "on_angle_sensor f = spec_sensors_update (angle_sensor_update f)"

definition on_image :: "(component \<Rightarrow> component) \<Rightarrow> object_spec \<Rightarrow> object_spec" where
  "on_image f = spec_sensors_update (image_sensor_update f)"

definition on_voltage :: "(component \<Rightarrow> component) \<Rightarrow> object_spec \<Rightarrow> object_spec" where
  "on_voltage f = spec_actuators_update (voltage_update f)"

definition on_model_state :: "(component \<Rightarrow> component) \<Rightarrow> object_spec \<Rightarrow> object_spec" where
  "on_model_state f = spec_states_update (model_state_update f)"

text \<open>Pendulum.agnostic(spec, rate), statement by statement.\<close>

definition Pendulum_agnostic :: "object_spec \<Rightarrow> real \<Rightarrow> object_spec" where
  "Pendulum_agnostic spec rate_arg =
     (let spec = on_angle_sensor (\<lambda>c. c\<lparr>rate := rate_arg\<rparr>) spec;
          spec = on_angle_sensor (\<lambda>c. c\<lparr>space_converter :=
                   Some (Space_Float32MultiArray [-9999, -9999] [9999, 9999] ''float32'')\<rparr>) spec;
          spec = on_image (\<lambda>c. c\<lparr>rate := 15\<rparr>) spec;
          spec = on_image (\<lambda>c. c\<lparr>space_converter :=
                   Some (Space_Image 0 255 (render_shape (spec_config spec)) ''uint8'')\<rparr>) spec;
          spec = on_voltage (\<lambda>c. c\<lparr>rate := rate_arg\<rparr>) spec;
          spec = on_voltage (\<lambda>c. c\<lparr>window := 1\<rparr>) spec;
          spec = on_voltage (\<lambda>c. c\<lparr>space_converter :=
                   Some (Space_Float32MultiArray [-3] [3] ''float32'')\<rparr>) spec;
          spec = on_model_state (\<lambda>c. c\<lparr>space_converter :=
                   Some (Space_Float32MultiArray [- pi, -9] [pi, 9] ''float32'')\<rparr>) spec
      in spec)"

text \<open>
  \<^verbatim>\<open>x if x else default\<close> for an optional list: None and the empty list are falsy.
\<close>

definition or_default :: "'a list option \<Rightarrow> 'a list \<Rightarrow> 'a list" where
  "or_default x d = (case x of None \<Rightarrow> d | Some xs \<Rightarrow> if xs = [] then d else xs)"

text \<open>The default of the parameter \<open>rate\<close> of Pendulum.spec.\<close>

definition default_rate :: real where
  "default_rate = 30"

text \<open>
  Pendulum.spec(spec, name, actuators, sensors, states, rate, render_shape).
  \<open>initialize_spec\<close> is the framework's; an argument \<open>rate_opt\<close> of None stands for the
  omitted argument.
\<close>

definition Pendulum_spec ::
  "(object_spec \<Rightarrow> object_spec) \<Rightarrow> object_spec \<Rightarrow> string \<Rightarrow> string list option \<Rightarrow>
   string list option \<Rightarrow> string list option \<Rightarrow> real option \<Rightarrow> int list option \<Rightarrow> object_spec" where
  "Pendulum_spec initialize_spec spec name_arg actuators_arg sensors_arg states_arg rate_opt
       render_shape_arg =
     (let rate_arg = (case rate_opt of None \<Rightarrow> default_rate | Some v \<Rightarrow> v);
          spec = initialize_spec spec;
          spec = spec_config_update (\<lambda>c. c\<lparr>name := name_arg\<rparr>) spec;
          spec = spec_config_update (\<lambda>c. c\<lparr>sensors := or_default sensors_arg [''angle_sensor'']\<rparr>) spec;
          spec = spec_config_update (\<lambda>c. c\<lparr>actuators := or_default actuators_arg [''voltage'']\<rparr>) spec;
          spec = spec_config_update (\<lambda>c. c\<lparr>states := or_default states_arg [''model_state'']\<rparr>) spec;
          spec = spec_config_update (\<lambda>c. c\<lparr>render_shape := or_default render_shape_arg [480, 480]\<rparr>) spec
      in Pendulum_agnostic spec rate_arg)"

text \<open>
  Engine nodes as \<open>EngineNode.make\<close> is given them, the ends of a connection, the
  keyword arguments of \<open>graph.connect\<close> (None for one not passed), and the calls made
  on the engine graph.
\<close>

record engine_node =
  node_type :: string
  node_name :: string
  node_rate :: real
  process :: int
  render_fn :: "string option"
  default_action :: "real list option"

datatype port = Outputs string string | Inputs string string

record connection =
  source :: "port option"
  target :: "port option"
  sensor :: "string option"
  actuator :: "string option"
  skip :: "bool option"

definition connect :: connection where
  "connect = \<lparr>source = None, target = None, sensor = None, actuator = None, skip = None\<rparr>"

datatype graph_call = Add "engine_node list" | Connect connection

text \<open>Pendulum.ode_bridge(spec, graph); the graph is the list of calls made on it.\<close>

definition Pendulum_ode_bridge :: "object_spec \<Rightarrow> graph_call list \<Rightarrow> object_spec \<times> graph_call list" where
  "Pendulum_ode_bridge spec graph =
     (let spec = spec_OdeBridge_update
                   (\<lambda>b. b\<lparr>ode := ''eagerx_tutorials.pendulum.pendulum_ode/pendulum_ode''\<rparr>) spec;
          spec = spec_OdeBridge_update
                   (\<lambda>b. b\<lparr>ode_params := [0.000189238, 0.0563641, 0.0437891, 0.000142205,
                                           0.0502769, 9.83536]\<rparr>) spec;
          spec = spec_OdeBridge_update
                   (\<lambda>b. b\<lparr>states_model_state := Some (EngineState ''OdeEngineState'')\<rparr>) spec;
          obs_node = \<lparr>node_type = ''OdeOutput'', node_name = ''angle_sensor'',
                      node_rate = rate (angle_sensor (spec_sensors spec)), process = 2,
                      render_fn = None, default_action = None\<rparr>;
          image_node = \<lparr>node_type = ''OdeRender'', node_name = ''image'',
                        node_rate = rate (image_sensor (spec_sensors spec)), process = 2,
                        render_fn = Some ''eagerx_tutorials.pendulum.pendulum_render/pendulum_render_fn'',
                        default_action = None\<rparr>;
          action_node = \<lparr>node_type = ''OdeInput'', node_name = ''pendulum_actuator'',
                         node_rate = rate (voltage (spec_actuators spec)), process = 2,
                         render_fn = None, default_action = Some [0]\<rparr>;
          graph = graph @ [Add [obs_node, image_node, action_node]];
          graph = graph @ [Connect (connect\<lparr>source := Some (Outputs (node_name obs_node) ''observation''),
                                           sensor := Some ''angle_sensor''\<rparr>)];
          graph = graph @ [Connect (connect\<lparr>source := Some (Outputs (node_name obs_node) ''observation''),
                                           target := Some (Inputs (node_name image_node) ''observation'')\<rparr>)];
          graph = graph @ [Connect (connect\<lparr>source := Some (Outputs (node_name action_node) ''action_applied''),
                                           target := Some (Inputs (node_name image_node) ''action_applied''),
                                           skip := Some True\<rparr>)];
          graph = graph @ [Connect (connect\<lparr>source := Some (Outputs (node_name image_node) ''image''),
                                           sensor := Some ''image''\<rparr>)];
          graph = graph @ [Connect (connect\<lparr>actuator := Some ''voltage'',
                                           target := Some (Inputs (node_name action_node) ''action'')\<rparr>)]
      in (spec, graph))"

text \<open>A call on the graph with the rates of its nodes blanked.\<close>

fun call_shape :: "graph_call \<Rightarrow> graph_call" where
  "call_shape (Add ns) = Add (map (\<lambda>n. n\<lparr>node_rate := 0\<rparr>) ns)"
| "call_shape (Connect c) = Connect c"

text \<open>A spec before initialisation, for the examples.\<close>

definition blank_component :: component where
  "blank_component = \<lparr>rate = 1, window = 0, space_converter = None\<rparr>"

definition blank_spec :: object_spec where
  "blank_spec =
     \<lparr>spec_sensors = \<lparr>angle_sensor = blank_component, image_sensor = blank_component\<rparr>,
      spec_actuators = \<lparr>voltage = blank_component\<rparr>,
      spec_states = \<lparr>model_state = blank_component\<rparr>,
      spec_config = \<lparr>name = [], sensors = [], actuators = [], states = [], render_shape = []\<rparr>,
      spec_OdeBridge = \<lparr>ode = [], ode_params = [], states_model_state = None\<rparr>\<rparr>"

section \<open>Properties of run_command\<close>




section \<open>Properties of evaluate: the episodes\<close>

lemma env_calls_append [simp]: "env_calls (xs @ ys) = env_calls xs @ env_calls ys"
  by (simp add: env_calls_def)





lemma env_calls_show_video [simp]: "env_calls (show_video pj a b) = []"
  by (simp add: show_video_def env_calls_def Let_def)

lemma env_calls_map_write [simp]: "env_calls (map CvtColorWrite xs) = []"
  by (induction xs) (simp_all add: env_calls_def)







text \<open>The definitions a concrete run unfolds.\<close>

lemmas demo_run_simps =
  evaluate_def episode_def step_body_def write_video_def show_video_def ffmpeg_command_def
  str_nat.simps digit_char_def demo_env_def Let_def upt_rec numeral_2_eq_2 numeral_3_eq_3



section \<open>Properties of evaluate: the two modes\<close>

lemma other_effects_append [simp]: "other_effects (xs @ ys) = other_effects xs @ other_effects ys"
  by (simp add: other_effects_def)





lemma without_video_append [simp]:
  "without_video (xs @ ys) = without_video xs @ without_video ys"
  by (simp add: without_video_def)









section \<open>Properties of evaluate: the frame buffer\<close>

lemma video_stream_append [simp]:
  "video_stream (xs @ ys) = video_stream xs @ video_stream ys"
  by (simp add: video_stream_def)

lemma video_stream_Nil [simp]: "video_stream [] = []"
  by (simp add: video_stream_def)

lemma video_stream_Cons [simp]: "video_stream (e # es) = frame_token e @ video_stream es"
  by (simp add: video_stream_def)

lemma video_stream_writes [simp]: "video_stream (map CvtColorWrite buf) = map Some buf"
  by (induction buf) simp_all

lemma step_body_stream:
  "video_stream (trace (step_body f vr s)) = video_stream (trace s)"
  by (simp add: step_body_def Let_def split: prod.splits option.splits)

lemma steps_loop_stream:
  "video_stream (trace ((step_body f vr ^^ k) s)) = video_stream (trace s)"
  by (induction k) (simp_all add: step_body_stream)

lemma step_body_trace_grows: "set (trace s) \<subseteq> set (trace (step_body f vr s))"
  by (auto simp: step_body_def Let_def split: prod.splits option.splits)

lemma step_body_buffer:
  assumes "\<forall>img\<in>set (img_array s).
             0 \<notin> set (img_shape f img) \<and> EnvRender ''rgb_array'' img \<in> set (trace s)"
  shows "\<forall>img\<in>set (img_array (step_body f vr s)).
             0 \<notin> set (img_shape f img)
             \<and> EnvRender ''rgb_array'' img \<in> set (trace (step_body f vr s))"
  using assms by (auto simp: step_body_def Let_def split: prod.splits option.splits)

lemma steps_loop_buffer:
  assumes "\<forall>img\<in>set (img_array s).
             0 \<notin> set (img_shape f img) \<and> EnvRender ''rgb_array'' img \<in> set (trace s)"
  shows "\<forall>img\<in>set (img_array ((step_body f vr ^^ k) s)).
             0 \<notin> set (img_shape f img)
             \<and> EnvRender ''rgb_array'' img \<in> set (trace ((step_body f vr ^^ k) s))"
proof (induction k)
  case 0
  from assms show ?case by simp
next
  case (Suc k)
  from step_body_buffer [OF this] show ?case by simp
qed

lemma steps_loop_trace_grows: "set (trace s) \<subseteq> set (trace ((step_body f vr ^^ k) s))"
proof (induction k)
  case 0
  show ?case by simp
next
  case (Suc k)
  with step_body_trace_grows [where s = "(step_body f vr ^^ k) s" and f = f and vr = vr] show ?case by auto
qed

lemma step_body_empty_frame:
  "\<forall>mode w. 0 \<in> set (img_shape f (fst (env_render f mode w))) \<Longrightarrow>
     img_array (step_body f vr s) = img_array s"
  by (auto simp: step_body_def Let_def split: prod.splits option.splits) (metis fst_conv)

lemma steps_loop_empty_frames:
  "k = 0 \<or> (\<forall>mode w. 0 \<in> set (img_shape f (fst (env_render f mode w)))) \<Longrightarrow>
     img_array ((step_body f vr ^^ k) s) = img_array s"
  by (induction k) (auto simp: step_body_empty_frame)

lemma write_video_empty:
  "img_array s = [] \<Longrightarrow>
     write_video f fps vf px i s = (Inl IndexError, world s, trace s @ [PrintStartVideoWriter])"
  by (simp add: write_video_def Let_def)

lemma write_video_frames:
  "write_video f fps vf px i s = (Inr r, w', tr') \<Longrightarrow>
     img_array s \<noteq> [] \<and> set (trace s) \<subseteq> set tr'
     \<and> video_stream tr' = video_stream (trace s) @ video_tokens (img_array s)"
  by (auto simp: write_video_def show_video_def Let_def video_tokens_def
           split: if_splits list.splits)

lemma episode_frames:
  fixes f :: "('w, 'obs, 'act, 'rew::{zero,plus}, 'info, 'img, 'mean) foreign"
    and tr :: "('obs, 'act, 'rew, 'mean, 'img, 'rate) event list"
  assumes "episode f n len (Some fps) px vf i (w, tr) = (Inr r, w', tr')"
  shows "\<exists>buf. buf \<noteq> []
           \<and> (\<forall>img\<in>set buf. 0 \<notin> set (img_shape f img) \<and> EnvRender ''rgb_array'' img \<in> set tr')
           \<and> video_stream tr' = video_stream tr @ video_tokens buf
           \<and> set tr \<subseteq> set tr'"
proof -
  obtain ob w1 where rs: "env_reset f w = (ob, w1)" by (cases "env_reset f w")
  define s0 :: "('w, 'obs, 'rew, 'img, ('obs, 'act, 'rew, 'mean, 'img, 'rate) event) locals"
    where "s0 = \<lparr>obs = ob, episodic_reward = 0, img_array = [], world = w1,
                trace = tr @ [PrintStartEpisode i n, EnvReset ob]\<rparr>"
  define s where "s = (step_body f (Some fps) ^^ len) s0"
  have wv: "write_video f fps vf px i s = (Inr r, w', tr')"
    using assms rs by (simp add: episode_def Let_def s_def s0_def)
  have buf: "\<forall>img\<in>set (img_array s).
             0 \<notin> set (img_shape f img) \<and> EnvRender ''rgb_array'' img \<in> set (trace s)"
    unfolding s_def by (rule steps_loop_buffer) (simp add: s0_def)
  have st: "video_stream (trace s) = video_stream tr"
    unfolding s_def by (simp add: steps_loop_stream s0_def)
  have gr: "set tr \<subseteq> set (trace s)"
    unfolding s_def using steps_loop_trace_grows [where s = s0 and f = f and vr = "Some fps" and k = len] by (auto simp: s0_def)
  from write_video_frames [OF wv] buf st gr show ?thesis
    by (intro exI [of _ "img_array s"]) auto
qed

lemma episodes_frames:
  fixes f :: "('w, 'obs, 'act, 'rew::{zero,plus}, 'info, 'img, 'mean) foreign"
    and tr :: "('obs, 'act, 'rew, 'mean, 'img, 'rate) event list"
  shows "episodes f n len (Some fps) px vf idx acc (w, tr) = (Inr rs, w', tr') \<Longrightarrow>
     \<exists>bufs. length bufs = length idx
        \<and> (\<forall>buf\<in>set bufs. buf \<noteq> []
              \<and> (\<forall>img\<in>set buf. 0 \<notin> set (img_shape f img)
                     \<and> EnvRender ''rgb_array'' img \<in> set tr'))
        \<and> video_stream tr' = video_stream tr @ concat (map video_tokens bufs)
        \<and> set tr \<subseteq> set tr'"
proof (induction idx arbitrary: acc w tr)
  case Nil
  then show ?case by simp
next
  case (Cons i rest)
  from Cons.prems obtain r w1 tr1 where
    ep: "episode f n len (Some fps) px vf i (w, tr) = (Inr r, w1, tr1)" and
    re: "episodes f n len (Some fps) px vf rest (acc @ [r]) (w1, tr1) = (Inr rs, w', tr')"
    by (auto split: prod.splits sum.splits)
  from episode_frames [OF ep] obtain buf where b: "buf \<noteq> []"
    "\<forall>img\<in>set buf. 0 \<notin> set (img_shape f img) \<and> EnvRender ''rgb_array'' img \<in> set tr1"
    "video_stream tr1 = video_stream tr @ video_tokens buf" "set tr \<subseteq> set tr1" by blast
  from Cons.IH [OF re] obtain bufs where bs: "length bufs = length rest"
    "\<forall>buf\<in>set bufs. buf \<noteq> []
              \<and> (\<forall>img\<in>set buf. 0 \<notin> set (img_shape f img)
                     \<and> EnvRender ''rgb_array'' img \<in> set tr')"
    "video_stream tr' = video_stream tr1 @ concat (map video_tokens bufs)"
    "set tr1 \<subseteq> set tr'" by blast
  show ?case
    apply (rule exI [of _ "buf # bufs"])
    using b bs by auto
qed

lemma episode_no_frames:
  fixes f :: "('w, 'obs, 'act, 'rew::{zero,plus}, 'info, 'img, 'mean) foreign"
    and tr :: "('obs, 'act, 'rew, 'mean, 'img, 'rate) event list"
  assumes "len = 0 \<or> (\<forall>mode w. 0 \<in> set (img_shape f (fst (env_render f mode w))))"
  shows "\<exists>w' tr'. episode f n len (Some fps) px vf i (w, tr) = (Inl IndexError, w', tr')
           \<and> video_stream tr' = video_stream tr \<and> last tr' = PrintStartVideoWriter"
proof -
  obtain ob w1 where rs: "env_reset f w = (ob, w1)" by (cases "env_reset f w")
  define s0 :: "('w, 'obs, 'rew, 'img, ('obs, 'act, 'rew, 'mean, 'img, 'rate) event) locals"
    where "s0 = \<lparr>obs = ob, episodic_reward = 0, img_array = [], world = w1,
                trace = tr @ [PrintStartEpisode i n, EnvReset ob]\<rparr>"
  define s where "s = (step_body f (Some fps) ^^ len) s0"
  have "img_array s = []"
    unfolding s_def using steps_loop_empty_frames [OF assms, where vr = "Some fps" and s = s0] by (simp add: s0_def)
  from write_video_empty [OF this]
  have "episode f n len (Some fps) px vf i (w, tr)
          = (Inl IndexError, world s, trace s @ [PrintStartVideoWriter])"
    using rs by (simp add: episode_def Let_def s_def s0_def)
  moreover have "video_stream (trace s) = video_stream tr"
    unfolding s_def by (simp add: steps_loop_stream s0_def)
  ultimately show ?thesis by simp
qed

text \<open>
  Claim C8.  In video mode, when the frame buffer of an episode is empty the block
  that writes the video raises IndexError right after its first print, before a video
  writer is opened.  So with at least one episode, if episode_length is 0 or every
  rendered frame has a zero-sized dimension, evaluate raises IndexError and no video
  is written.  And when evaluate completes in video mode, every one of the
  n_eval_episodes episodes has written a video from a buffer holding at least one
  rendered frame, all of whose frames have only nonzero dimensions.
\<close>

theorem evaluate_video_needs_a_frame:
  fixes f :: "('w, 'obs, 'act, 'rew::{zero,plus}, 'info, 'img, 'mean) foreign"
    and fps :: 'rate
    and s :: "('w, 'obs, 'rew, 'img, ('obs, 'act, 'rew, 'mean, 'img, 'rate) event) locals"
  shows "(img_array s = [] \<longrightarrow>
            write_video f fps video_folder video_prefix i s
              = (Inl IndexError, world s, trace s @ [PrintStartVideoWriter]))
       \<and> (0 < n_eval_episodes
           \<and> (episode_length = 0
               \<or> (\<forall>mode w. 0 \<in> set (img_shape f (fst (env_render f mode w))))) \<longrightarrow>
          (\<exists>w' tr. evaluate f n_eval_episodes episode_length (Some fps) video_prefix w
                      = (Inl IndexError, w', tr)
                 \<and> video_stream tr = [] \<and> last tr = PrintStartVideoWriter))
       \<and> (\<forall>res w' tr.
            evaluate f n_eval_episodes episode_length (Some fps) video_prefix w = (Inr res, w', tr) \<longrightarrow>
            (\<exists>bufs. length bufs = n_eval_episodes
               \<and> (\<forall>buf\<in>set bufs. buf \<noteq> []
                     \<and> (\<forall>img\<in>set buf. 0 \<notin> set (img_shape f img)
                            \<and> EnvRender ''rgb_array'' img \<in> set tr))
               \<and> video_stream tr = concat (map video_tokens bufs)))"
proof (intro conjI allI impI)
  assume "img_array s = []"
  then show "write_video f fps video_folder video_prefix i s
              = (Inl IndexError, world s, trace s @ [PrintStartVideoWriter])"
    by (rule write_video_empty)
next
  assume a: "0 < n_eval_episodes
           \<and> (episode_length = 0
               \<or> (\<forall>mode w. 0 \<in> set (img_shape f (fst (env_render f mode w)))))"
  then have idx: "[0..<n_eval_episodes] = 0 # [1..<n_eval_episodes]"
    by (simp add: upt_conv_Cons)
  from a episode_no_frames [where len = episode_length and f = f and n = n_eval_episodes
         and fps = fps and px = video_prefix and vf = "''videos/''" and i = 0 and w = w
         and tr = "[Makedirs ''videos/'' True]"]
  obtain w' tr' where
    "episode f n_eval_episodes episode_length (Some fps) video_prefix ''videos/'' 0
       (w, [Makedirs ''videos/'' True]) = (Inl IndexError, w', tr')"
    "video_stream tr' = video_stream [Makedirs ''videos/'' True :: ('obs, 'act, 'rew, 'mean, 'img, 'rate) event]"
    "last tr' = PrintStartVideoWriter"
    by blast
  then show "\<exists>w' tr. evaluate f n_eval_episodes episode_length (Some fps) video_prefix w
                      = (Inl IndexError, w', tr)
                 \<and> video_stream tr = [] \<and> last tr = PrintStartVideoWriter"
    by (simp add: evaluate_def Let_def idx)
next
  fix res w' tr
  assume "evaluate f n_eval_episodes episode_length (Some fps) video_prefix w = (Inr res, w', tr)"
  then obtain rs tr0 where
    es: "episodes f n_eval_episodes episode_length (Some fps) video_prefix ''videos/''
           [0..<n_eval_episodes] [] (w, [Makedirs ''videos/'' True]) = (Inr rs, w', tr0)"
    and tr: "tr = tr0 @ [PrintFinished (np_mean f rs)]"
    by (auto simp: evaluate_def Let_def split: prod.splits sum.splits)
  from episodes_frames [OF es] obtain bufs where "length bufs = n_eval_episodes"
    "\<forall>buf\<in>set bufs. buf \<noteq> []
              \<and> (\<forall>img\<in>set buf. 0 \<notin> set (img_shape f img)
                     \<and> EnvRender ''rgb_array'' img \<in> set tr0)"
    "video_stream tr0 = video_stream [Makedirs ''videos/'' True] @ concat (map video_tokens bufs)"
    by auto
  then show "\<exists>bufs. length bufs = n_eval_episodes
               \<and> (\<forall>buf\<in>set bufs. buf \<noteq> []
                     \<and> (\<forall>img\<in>set buf. 0 \<notin> set (img_shape f img)
                            \<and> EnvRender ''rgb_array'' img \<in> set tr))
               \<and> video_stream tr = concat (map video_tokens bufs)"
    using tr by (intro exI [of _ bufs]) simp
qed

section \<open>Concrete runs with video\<close>

lemma demo_video_run:
  "evaluate demo_env 1 2 (Some (30::nat)) ''run'' 5 = (Inr ([3], 3), 3, demo_video_log)"
  by (simp add: demo_run_simps demo_video_log_def)


theorem evaluate_video_needs_a_frame_witness:
  "write_video demo_env (30::nat) ''videos/'' ''run'' 0
      \<lparr>obs = 0, episodic_reward = 0, img_array = [], world = 0, trace = []\<rparr>
     = (Inl IndexError, 0, [PrintStartVideoWriter])
   \<and> evaluate demo_env 2 0 (Some (30::nat)) ''run'' 5 =
       (Inl IndexError, 0,
        [Makedirs ''videos/'' True, PrintStartEpisode 0 2, EnvReset 0, PrintStartVideoWriter])
   \<and> (\<exists>w' tr. evaluate blind_env 1 2 (Some (30::nat)) ''run'' 5 = (Inl IndexError, w', tr)
          \<and> video_stream tr = [] \<and> last tr = PrintStartVideoWriter)
   \<and> evaluate demo_env 1 2 (Some (30::nat)) ''run'' 5 = (Inr ([3], 3), 3, demo_video_log)
   \<and> (\<exists>bufs. length bufs = 1
          \<and> (\<forall>buf\<in>set bufs. buf \<noteq> []
                \<and> (\<forall>img\<in>set buf. 0 \<notin> set (img_shape demo_env img)
                       \<and> EnvRender ''rgb_array'' img \<in> set demo_video_log))
          \<and> video_stream demo_video_log = concat (map video_tokens bufs))"
proof -
  have blind: "0 < (1::nat) \<and> ((2::nat) = 0
      \<or> (\<forall>mode w. 0 \<in> set (img_shape blind_env (fst (env_render blind_env mode w)))))"
    by (simp add: blind_env_def demo_env_def)
  note a = evaluate_video_needs_a_frame [where f = demo_env and fps = "30::nat"
      and video_folder = "''videos/''" and video_prefix = "''run''" and i = 0
      and s = "\<lparr>obs = 0, episodic_reward = 0, img_array = [], world = 0, trace = []\<rparr>"
      and n_eval_episodes = 1 and episode_length = 2 and w = 5]
  note b = evaluate_video_needs_a_frame [where f = blind_env and fps = "30::nat"
      and video_prefix = "''run''" and n_eval_episodes = 1 and episode_length = 2 and w = 5]
  have 1: "write_video demo_env (30::nat) ''videos/'' ''run'' 0
      \<lparr>obs = 0, episodic_reward = 0, img_array = [], world = 0, trace = []\<rparr>
     = (Inl IndexError, 0, [PrintStartVideoWriter :: (nat, nat, int, real, nat list, nat) event])"
    using a [THEN conjunct1] by simp
  have 2: "evaluate demo_env 2 0 (Some (30::nat)) ''run'' 5 =
       (Inl IndexError, 0,
        [Makedirs ''videos/'' True, PrintStartEpisode 0 2, EnvReset 0, PrintStartVideoWriter])"
    by (simp add: demo_run_simps)
  have 3: "\<exists>w' tr. evaluate blind_env 1 2 (Some (30::nat)) ''run'' 5 = (Inl IndexError, w', tr)
          \<and> video_stream tr = [] \<and> last tr = PrintStartVideoWriter"
    by (rule b [THEN conjunct2, THEN conjunct1, rule_format, OF blind])
  have 4: "\<exists>bufs. length bufs = 1
          \<and> (\<forall>buf\<in>set bufs. buf \<noteq> []
                \<and> (\<forall>img\<in>set buf. 0 \<notin> set (img_shape demo_env img)
                       \<and> EnvRender ''rgb_array'' img \<in> set demo_video_log))
          \<and> video_stream demo_video_log = concat (map video_tokens bufs)"
    by (rule a [THEN conjunct2, THEN conjunct2, rule_format, OF demo_video_run])
  from 1 2 3 demo_video_run 4 show ?thesis by (intro conjI)
qed

section \<open>Properties of record_video\<close>








section \<open>Properties of setup_notebook\<close>




lemma effects_simps [simp]:
  "effects [] = []"
  "effects (xs @ ys) = effects xs @ effects ys"
  "effects (Console co # xs) = effects xs"
  "effects (Printed s # xs) = Printed s # effects xs"
  "effects (Environ k v # xs) = Environ k v # effects xs"
  "effects (Reloaded m # xs) = Reloaded m # effects xs"
  "effects (Imported m b # xs) = Imported m b # effects xs"
  "effects (Ran cmd # xs) = Ran cmd # effects xs"
  "effects (Started cmd # xs) = Started cmd # effects xs"
  by (simp_all add: effects_def)











section \<open>Properties of the Pendulum object\<close>

lemmas pendulum_simps =
  Pendulum_agnostic_def Pendulum_spec_def on_angle_sensor_def on_image_def on_voltage_def
  on_model_state_def Let_def

text \<open>
  Claim C3.  The declaration registers exactly the sensors angle_sensor and image,
  the actuator voltage and the state model_state.  After Pendulum.agnostic the value
  ranges are: angle_sensor within -9999 and 9999 in both components, voltage within
  -3 and 3, model_state within -pi and pi for the angle and -9 and 9 for the angular
  velocity, image pixels within 0 and 255 with the shape of the configured
  render_shape; and Pendulum.spec leaves the image shape equal to the render_shape
  it configured.
\<close>

theorem pendulum_registers_ranges:
  "map fst registered_sensors = [''angle_sensor'', ''image'']
   \<and> map fst registered_actuators = [''voltage'']
   \<and> map fst registered_engine_states = [''model_state'']
   \<and> space_converter (angle_sensor (spec_sensors (Pendulum_agnostic spec r)))
       = Some (Space_Float32MultiArray [-9999, -9999] [9999, 9999] ''float32'')
   \<and> space_converter (voltage (spec_actuators (Pendulum_agnostic spec r)))
       = Some (Space_Float32MultiArray [-3] [3] ''float32'')
   \<and> space_converter (model_state (spec_states (Pendulum_agnostic spec r)))
       = Some (Space_Float32MultiArray [- pi, -9] [pi, 9] ''float32'')
   \<and> space_converter (image_sensor (spec_sensors (Pendulum_agnostic spec r)))
       = Some (Space_Image 0 255 (render_shape (spec_config spec)) ''uint8'')
   \<and> render_shape (spec_config (Pendulum_agnostic spec r)) = render_shape (spec_config spec)
   \<and> space_converter (image_sensor (spec_sensors
         (Pendulum_spec init spec nm acts sens sts rt shape)))
       = Some (Space_Image 0 255
           (render_shape (spec_config (Pendulum_spec init spec nm acts sens sts rt shape)))
           ''uint8'')"
  by (simp add: pendulum_simps registered_sensors_def registered_actuators_def
        registered_engine_states_def)

text \<open>
  Claim C4.  For every rate given to Pendulum.spec, and for the default 30 when none
  is given, the angle_sensor rate and the voltage rate are that rate, the voltage
  window is 1, and the image rate is 15 whatever the rate.
\<close>

theorem pendulum_rates:
  "rate (angle_sensor (spec_sensors (Pendulum_spec init spec nm acts sens sts (Some r) shape))) = r
   \<and> rate (voltage (spec_actuators (Pendulum_spec init spec nm acts sens sts (Some r) shape))) = r
   \<and> rate (angle_sensor (spec_sensors (Pendulum_spec init spec nm acts sens sts None shape))) = 30
   \<and> rate (voltage (spec_actuators (Pendulum_spec init spec nm acts sens sts None shape))) = 30
   \<and> window (voltage (spec_actuators (Pendulum_spec init spec nm acts sens sts rt shape))) = 1
   \<and> rate (image_sensor (spec_sensors (Pendulum_spec init spec nm acts sens sts rt shape))) = 15
   \<and> rate (angle_sensor (spec_sensors (Pendulum_agnostic spec r))) = r
   \<and> rate (voltage (spec_actuators (Pendulum_agnostic spec r))) = r
   \<and> window (voltage (spec_actuators (Pendulum_agnostic spec r))) = 1
   \<and> rate (image_sensor (spec_sensors (Pendulum_agnostic spec r))) = 15"
  by (simp add: pendulum_simps default_rate_def)

text \<open>
  Claim C9.  In Pendulum.spec a falsy argument selects the default: None or the empty
  list for sensors, actuators or states gives angle_sensor, voltage and model_state,
  a falsy render_shape gives 480 by 480; a non-empty list is kept.  The configured
  sensor, actuator and state lists are therefore never empty.
\<close>

theorem pendulum_spec_defaults:
  "sensors (spec_config (Pendulum_spec init spec nm acts sens sts rt shape))
       = or_default sens [''angle_sensor'']
   \<and> actuators (spec_config (Pendulum_spec init spec nm acts sens sts rt shape))
       = or_default acts [''voltage'']
   \<and> states (spec_config (Pendulum_spec init spec nm acts sens sts rt shape))
       = or_default sts [''model_state'']
   \<and> render_shape (spec_config (Pendulum_spec init spec nm acts sens sts rt shape))
       = or_default shape [480, 480]
   \<and> or_default None d = d
   \<and> or_default (Some []) d = d
   \<and> or_default (Some (x # xs)) d = x # xs
   \<and> sensors (spec_config (Pendulum_spec init spec nm acts sens sts rt shape)) \<noteq> []
   \<and> actuators (spec_config (Pendulum_spec init spec nm acts sens sts rt shape)) \<noteq> []
   \<and> states (spec_config (Pendulum_spec init spec nm acts sens sts rt shape)) \<noteq> []"
  by (simp add: pendulum_simps or_default_def split: option.splits)

text \<open>
  Claim C5.  For every spec and graph, Pendulum.ode_bridge makes the same six calls
  on the graph, after those already made: one add of three engine nodes (OdeOutput
  angle_sensor, OdeRender image, OdeInput pendulum_actuator, whose rates are read from
  the spec) and five connects (observation to the sensor angle_sensor, observation
  to the render node's observation input, the applied action to the render node with
  skip=True, the render node's image to the sensor image, the actuator voltage to the
  input node's action); it sets the ODE function, the six ODE parameters and the
  engine state, and changes nothing else of the spec.  Two runs on any two specs and
  graphs make the same calls but for the rates of the nodes.
\<close>

theorem pendulum_ode_bridge_wiring:
  "snd (Pendulum_ode_bridge spec graph) =
     graph @
     [Add [\<lparr>node_type = ''OdeOutput'', node_name = ''angle_sensor'',
            node_rate = rate (angle_sensor (spec_sensors spec)), process = 2,
            render_fn = None, default_action = None\<rparr>,
           \<lparr>node_type = ''OdeRender'', node_name = ''image'',
            node_rate = rate (image_sensor (spec_sensors spec)), process = 2,
            render_fn = Some ''eagerx_tutorials.pendulum.pendulum_render/pendulum_render_fn'',
            default_action = None\<rparr>,
           \<lparr>node_type = ''OdeInput'', node_name = ''pendulum_actuator'',
            node_rate = rate (voltage (spec_actuators spec)), process = 2,
            render_fn = None, default_action = Some [0]\<rparr>],
      Connect \<lparr>source = Some (Outputs ''angle_sensor'' ''observation''), target = None,
               sensor = Some ''angle_sensor'', actuator = None, skip = None\<rparr>,
      Connect \<lparr>source = Some (Outputs ''angle_sensor'' ''observation''),
               target = Some (Inputs ''image'' ''observation''),
               sensor = None, actuator = None, skip = None\<rparr>,
      Connect \<lparr>source = Some (Outputs ''pendulum_actuator'' ''action_applied''),
               target = Some (Inputs ''image'' ''action_applied''),
               sensor = None, actuator = None, skip = Some True\<rparr>,
      Connect \<lparr>source = Some (Outputs ''image'' ''image''), target = None,
               sensor = Some ''image'', actuator = None, skip = None\<rparr>,
      Connect \<lparr>source = None, target = Some (Inputs ''pendulum_actuator'' ''action''),
               sensor = None, actuator = Some ''voltage'', skip = None\<rparr>]
   \<and> fst (Pendulum_ode_bridge spec graph) =
       spec\<lparr>spec_OdeBridge :=
         \<lparr>ode = ''eagerx_tutorials.pendulum.pendulum_ode/pendulum_ode'',
          ode_params = [0.000189238, 0.0563641, 0.0437891, 0.000142205, 0.0502769, 9.83536],
          states_model_state = Some (EngineState ''OdeEngineState'')\<rparr>\<rparr>
   \<and> length (ode_params (spec_OdeBridge (fst (Pendulum_ode_bridge spec graph)))) = 6
   \<and> length (filter (\<lambda>c. case c of Add ns \<Rightarrow> True | Connect x \<Rightarrow> False)
        (drop (length graph) (snd (Pendulum_ode_bridge spec graph)))) = 1
   \<and> length (filter (\<lambda>c. case c of Add ns \<Rightarrow> False | Connect x \<Rightarrow> True)
        (drop (length graph) (snd (Pendulum_ode_bridge spec graph)))) = 5
   \<and> map call_shape (drop (length graph) (snd (Pendulum_ode_bridge spec graph)))
       = map call_shape (drop (length graph') (snd (Pendulum_ode_bridge spec' graph')))"
  by (simp add: Pendulum_ode_bridge_def connect_def Let_def)

section \<open>The Pendulum object on a blank spec\<close>

theorem pendulum_spec_defaults_witness:
  "sensors (spec_config (Pendulum_spec (\<lambda>s. s) blank_spec ''pendulum'' (Some [])
       None (Some [''model_state'', ''extra'']) None None)) = [''angle_sensor'']
   \<and> actuators (spec_config (Pendulum_spec (\<lambda>s. s) blank_spec ''pendulum'' (Some [])
       None (Some [''model_state'', ''extra'']) None None)) = [''voltage'']
   \<and> states (spec_config (Pendulum_spec (\<lambda>s. s) blank_spec ''pendulum'' (Some [])
       None (Some [''model_state'', ''extra'']) None None)) = [''model_state'', ''extra'']
   \<and> render_shape (spec_config (Pendulum_spec (\<lambda>s. s) blank_spec ''pendulum'' (Some [])
       None (Some [''model_state'', ''extra'']) None None)) = [480, 480]"
  using pendulum_spec_defaults [where init = "\<lambda>s. s" and spec = blank_spec and nm = "''pendulum''"
      and acts = "Some []" and sens = None and sts = "Some [''model_state'', ''extra'']"
      and rt = None and shape = None]
  by (simp add: or_default_def)

theorem pendulum_rates_witness:
  "rate (angle_sensor (spec_sensors
      (Pendulum_spec (\<lambda>s. s) blank_spec ''pendulum'' None None None (Some 20) None))) = 20
   \<and> rate (voltage (spec_actuators
      (Pendulum_spec (\<lambda>s. s) blank_spec ''pendulum'' None None None (Some 20) None))) = 20
   \<and> window (voltage (spec_actuators
      (Pendulum_spec (\<lambda>s. s) blank_spec ''pendulum'' None None None (Some 20) None))) = 1
   \<and> rate (image_sensor (spec_sensors
      (Pendulum_spec (\<lambda>s. s) blank_spec ''pendulum'' None None None (Some 20) None))) = 15
   \<and> rate (angle_sensor (spec_sensors
      (Pendulum_spec (\<lambda>s. s) blank_spec ''pendulum'' None None None None None))) = 30"
  using pendulum_rates [where init = "\<lambda>s. s" and spec = blank_spec and nm = "''pendulum''"
      and acts = None and sens = None and sts = None and rt = "Some 20" and r = 20 and shape = None]
  by simp

theorem pendulum_registers_ranges_witness:
  "space_converter (image_sensor (spec_sensors
      (Pendulum_spec (\<lambda>s. s) blank_spec ''pendulum'' None None None None (Some [240, 320]))))
     = Some (Space_Image 0 255 [240, 320] ''uint8'')
   \<and> space_converter (model_state (spec_states (Pendulum_agnostic blank_spec 30)))
     = Some (Space_Float32MultiArray [- pi, -9] [pi, 9] ''float32'')"
  using pendulum_registers_ranges [where init = "\<lambda>s. s" and spec = blank_spec
      and nm = "''pendulum''" and acts = None and sens = None and sts = None and rt = None
      and shape = "Some [240, 320]" and r = 30]
  by (simp add: pendulum_simps or_default_def)

theorem pendulum_ode_bridge_wiring_witness:
  "map (\<lambda>c. case c of Add ns \<Rightarrow> map node_type ns | Connect x \<Rightarrow> [])
       (snd (Pendulum_ode_bridge (Pendulum_agnostic blank_spec 30) []))
     = [[''OdeOutput'', ''OdeRender'', ''OdeInput''], [], [], [], [], []]
   \<and> map (\<lambda>c. case c of Add ns \<Rightarrow> map node_rate ns | Connect x \<Rightarrow> [])
       (snd (Pendulum_ode_bridge (Pendulum_agnostic blank_spec 30) []))
     = [[30, 15, 30], [], [], [], [], []]"
  using pendulum_ode_bridge_wiring [where spec = "Pendulum_agnostic blank_spec 30" and graph = "[]"]
  by (simp add: pendulum_simps)

end
